theory Spec2Isabelle
  imports Complex_Main "HOL-Library.Char_ord" "HOL-Library.List_Lexorder"
    "HOL-Library.Product_Lexorder"
begin

section \<open>Feature collections\<close>

text \<open>
  The geometry pipeline of \<^verbatim>\<open>utils.py\<close> works on GeoDataFrames. A frame is modelled
  by its coordinate reference system (absent on a frame that was never given one), the
  name of its active geometry column, the names of its other columns in order, and its
  rows. A row has its index label, its geometry (the value of the active geometry column,
  which \<^verbatim>\<open>df.geometry\<close> reads) and the values of the other columns; only the cells of
  columns named in \<open>columns\<close> belong to the frame. The frames the map script builds
  name their geometry column \<^verbatim>\<open>geometry\<close>; a frame read from elsewhere may name it
  otherwise. The geometry column is taken not to share its name with another column.

  A cell holds a string, a number, the missing value or, in a column of geometries that
  is not the active one, a geometry. Areas are taken to be finite numbers, so the
  comparison against the threshold is the one on the reals.
\<close>

datatype 'g val = Str string | Num real | NaN | Geom 'g

record 'g row =
  idx :: nat
  geometry :: 'g
  cells :: "string \<Rightarrow> 'g val"

record 'g gdf =
  crs :: "string option"
  geometry_name :: string
  columns :: "string list"
  rows :: "'g row list"

datatype error =
    ValueError
  | KeyError string
  | AttributeError

text \<open>
  The geometric operations come from the geometry library and are parameters of the
  model: reprojection between two reference systems, planar area, buffering by a signed
  distance, simplification with a tolerance, the union of a list of geometries, and the
  parts of a geometry that is a MultiPolygon (\<open>None\<close> for any other kind).
\<close>

record 'g geo_ops =
  reproject :: "string \<Rightarrow> string \<Rightarrow> 'g \<Rightarrow> 'g"
  area :: "'g \<Rightarrow> real"
  buffer :: "real \<Rightarrow> 'g \<Rightarrow> 'g"
  simplify :: "real \<Rightarrow> 'g \<Rightarrow> 'g"
  unary_union :: "'g list \<Rightarrow> 'g"
  geoms :: "'g \<Rightarrow> 'g list option"

text \<open>
  \<^verbatim>\<open>gdf.to_crs(target)\<close>: a new frame with the active geometry reprojected; raises on a
  frame without a reference system.
\<close>

definition to_crs :: "'g geo_ops \<Rightarrow> string \<Rightarrow> 'g gdf \<Rightarrow> error + 'g gdf" where
  "to_crs ops target df =
     (case crs df of
        None \<Rightarrow> Inl ValueError
      | Some src \<Rightarrow>
          Inr (df\<lparr>crs := Some target,
                  rows := map (\<lambda>r. r\<lparr>geometry := reproject ops src target (geometry r)\<rparr>)
                            (rows df)\<rparr>))"

text \<open>
  \<^verbatim>\<open>df[c] = values\<close>: an existing attribute column is overwritten in place, a new one
  is appended after the others.
\<close>

definition set_column :: "string \<Rightarrow> ('g row \<Rightarrow> 'g val) \<Rightarrow> 'g gdf \<Rightarrow> 'g gdf" where
  "set_column c f df =
     df\<lparr>columns := (if c \<in> set (columns df) then columns df else columns df @ [c]),
        rows := map (\<lambda>r. r\<lparr>cells := (cells r)(c := f r)\<rparr>) (rows df)\<rparr>"

text \<open>
  \<^verbatim>\<open>df["geometry"] = df.geometry.op(...)\<close>: the operation reads the active geometry, and
  the result is assigned to the column named \<^verbatim>\<open>geometry\<close>. Where that is the active
  geometry column, the geometry of every row is replaced. Where the active column has
  another name, the assignment writes an ordinary column \<^verbatim>\<open>geometry\<close> and the active
  geometry stays as it was.
\<close>

definition set_geometry :: "('g \<Rightarrow> 'g) \<Rightarrow> 'g gdf \<Rightarrow> 'g gdf" where
  "set_geometry f df =
     (if geometry_name df = ''geometry''
      then df\<lparr>rows := map (\<lambda>r. r\<lparr>geometry := f (geometry r)\<rparr>) (rows df)\<rparr>
      else set_column ''geometry'' (\<lambda>r. Geom (f (geometry r))) df)"

text \<open>\<^verbatim>\<open>df[mask].copy()\<close>: the rows where the mask holds, in their order.\<close>

definition select_rows :: "('g row \<Rightarrow> bool) \<Rightarrow> 'g gdf \<Rightarrow> 'g gdf" where
  "select_rows p df = df\<lparr>rows := filter p (rows df)\<rparr>"

text \<open>\<^verbatim>\<open>cell > t\<close> on a numeric column: false on a missing value.\<close>

fun num_gt :: "'g val \<Rightarrow> real \<Rightarrow> bool" where
  "num_gt (Num a) t = (t < a)"
| "num_gt _ t = False"

section \<open>The generic filter-and-smooth operation\<close>

definition filter_and_smooth_geometries ::
  "'g geo_ops \<Rightarrow> 'g gdf \<Rightarrow> real \<Rightarrow> real \<Rightarrow> real \<Rightarrow> string \<Rightarrow> string \<Rightarrow> error + 'g gdf"
  where
  "filter_and_smooth_geometries ops gdf area_threshold_m2 smooth_strength_m simplify_factor
       input_crs working_crs =
     (case to_crs ops working_crs gdf of
        Inl e \<Rightarrow> Inl e
      | Inr gdf_m0 \<Rightarrow>
          let gdf_m = set_column ''area_m2'' (\<lambda>r. Num (area ops (geometry r))) gdf_m0;
              gdf_filtered =
                select_rows (\<lambda>r. num_gt (cells r ''area_m2'') area_threshold_m2) gdf_m;
              gdf_smoothed =
                set_geometry
                  (\<lambda>g. buffer ops (- smooth_strength_m) (buffer ops smooth_strength_m g))
                  gdf_filtered;
              gdf_simplified = set_geometry (simplify ops simplify_factor) gdf_smoothed
          in to_crs ops input_crs gdf_simplified)"

section \<open>The category-aware merge-and-stylize operation\<close>

text \<open>
  \<^verbatim>\<open>gdf.groupby("category")\<close> iterates over the distinct values of the column in sorted
  order, numbers before strings, and leaves out the rows whose value is missing; each
  group holds its rows in frame order. A frame without the column raises a key error.
  Geometries have no order: as keys they come last, in order of first appearance.
\<close>

fun key_rank :: "'g val \<Rightarrow> nat \<times> real \<times> string" where
  "key_rank (Num x) = (0, x, [])"
| "key_rank (Str s) = (1, 0, s)"
| "key_rank NaN = (2, 0, [])"
| "key_rank (Geom g) = (3, 0, [])"

definition groupby :: "string \<Rightarrow> 'g gdf \<Rightarrow> error + ('g val \<times> 'g row list) list" where
  "groupby c df =
     (if c \<notin> set (columns df) then Inl (KeyError c)
      else
        let keys = sort_key key_rank
                     (remdups (filter (\<lambda>v. v \<noteq> NaN) (map (\<lambda>r. cells r c) (rows df))))
        in Inr (map (\<lambda>k. (k, filter (\<lambda>r. cells r c = k) (rows df))) keys))"

text \<open>The body of the loop over the groups: the rows one group appends to the result.\<close>

definition stylize_group ::
  "'g geo_ops \<Rightarrow> real \<Rightarrow> real \<Rightarrow> real \<Rightarrow> 'g val \<Rightarrow> 'g row list \<Rightarrow> ('g val \<times> 'g) list"
  where
  "stylize_group ops proximity_threshold_m smooth_strength_m simplify_factor cat grp =
     (if cat \<noteq> Str ''other'' then
        let buffered = map (\<lambda>r. buffer ops proximity_threshold_m (geometry r)) grp;
            fused = unary_union ops buffered;
            fused = (if smooth_strength_m > 0 then buffer ops smooth_strength_m fused
                     else fused);
            simplified = simplify ops simplify_factor fused
        in (case geoms ops simplified of
              Some parts \<Rightarrow> map (\<lambda>geom. (cat, geom)) parts
            | None \<Rightarrow> [(cat, simplified)])
      else [])"

fun stylize_loop ::
  "'g geo_ops \<Rightarrow> real \<Rightarrow> real \<Rightarrow> real \<Rightarrow> ('g val \<times> 'g row list) list \<Rightarrow> ('g val \<times> 'g) list
     \<Rightarrow> ('g val \<times> 'g) list" where
  "stylize_loop ops p s k [] final_geoms = final_geoms"
| "stylize_loop ops p s k ((cat, grp) # rest) final_geoms =
     stylize_loop ops p s k rest (final_geoms @ stylize_group ops p s k cat grp)"

text \<open>
  \<^verbatim>\<open>gpd.GeoDataFrame(final_geoms, crs=...)\<close> on a list of
  \<^verbatim>\<open>{"category": ..., "geometry": ...}\<close> rows: the frame has the geometry column
  \<^verbatim>\<open>geometry\<close>, the one other column \<^verbatim>\<open>category\<close> and a fresh index 0, 1, ... A
  frame built from no rows has no columns at
  all, hence no geometry column, and the library raises when a reference system is given
  to a frame without geometry (a frame without geometry cannot be reprojected either).
\<close>

definition GeoDataFrame :: "('g val \<times> 'g) list \<Rightarrow> string \<Rightarrow> error + 'g gdf" where
  "GeoDataFrame final_geoms frame_crs =
     (if final_geoms = [] then Inl ValueError
      else Inr \<lparr>crs = Some frame_crs, geometry_name = ''geometry'',
                columns = [''category''],
                rows = map (\<lambda>(i, cat, geom).
                              \<lparr>idx = i, geometry = geom,
                               cells = (\<lambda>c. NaN)(''category'' := cat)\<rparr>)
                         (enumerate 0 final_geoms)\<rparr>)"

definition stylize_natural_geometries ::
  "'g geo_ops \<Rightarrow> 'g gdf \<Rightarrow> real \<Rightarrow> real \<Rightarrow> real \<Rightarrow> real \<Rightarrow> string \<Rightarrow> string
     \<Rightarrow> error + 'g gdf" where
  "stylize_natural_geometries ops gdf area_threshold_m2 proximity_threshold_m
       smooth_strength_m simplify_factor input_crs working_crs =
     (case to_crs ops working_crs gdf of
        Inl e \<Rightarrow> Inl e
      | Inr gdf_m \<Rightarrow>
          let gdf_a = set_column ''area_m2'' (\<lambda>r. Num (area ops (geometry r))) gdf_m;
              gdf_f = select_rows (\<lambda>r. num_gt (cells r ''area_m2'') area_threshold_m2) gdf_a
          in (case groupby ''category'' gdf_f of
                Inl e \<Rightarrow> Inl e
              | Inr groups \<Rightarrow>
                  let final_geoms =
                        stylize_loop ops proximity_threshold_m smooth_strength_m
                          simplify_factor groups []
                  in (case GeoDataFrame final_geoms working_crs of
                        Inl e \<Rightarrow> Inl e
                      | Inr gdf_result \<Rightarrow> to_crs ops input_crs gdf_result)))"

section \<open>The category classifier\<close>

text \<open>
  \<^verbatim>\<open>classify\<close> of the map script reads a row through \<^verbatim>\<open>row.get\<close>, which gives
  \<open>None\<close> for a column the frame does not have. A value is in a list of tag strings
  when it is a string equal to one of them.
\<close>

definition grass_tags :: "(string \<times> string list) list" where
  "grass_tags =
     [(''natural'', [''heath'']),
      (''landuse'', [''meadow'', ''farmland'', ''grass'', ''orchard'']),
      (''landcover'', [''grass'', ''crop''])]"

definition forest_tags :: "(string \<times> string list) list" where
  "forest_tags =
     [(''landuse'', [''forest'']),
      (''natural'', [''wood'', ''tundra''])]"

definition tags_at :: "(string \<times> string list) list \<Rightarrow> string \<Rightarrow> string list" where
  "tags_at tags k = (case map_of tags k of Some vs \<Rightarrow> vs | None \<Rightarrow> [])"

definition is_in :: "'g val option \<Rightarrow> string list \<Rightarrow> bool" where
  "is_in v vs = (case v of Some (Str s) \<Rightarrow> s \<in> set vs | _ \<Rightarrow> False)"

definition classify :: "(string \<Rightarrow> 'g val option) \<Rightarrow> string" where
  "classify row =
     (if is_in (row ''natural'') (tags_at forest_tags ''natural'') then ''forest''
      else if is_in (row ''landuse'') (tags_at forest_tags ''landuse'') then ''forest''
      else if is_in (row ''natural'') (tags_at grass_tags ''natural'') then ''grass''
      else ''other'')"

definition row_get :: "'g gdf \<Rightarrow> 'g row \<Rightarrow> string \<Rightarrow> 'g val option" where
  "row_get df r k =
     (if k = geometry_name df then Some (Geom (geometry r))
      else if k \<in> set (columns df) then Some (cells r k)
      else None)"

text \<open>\<^verbatim>\<open>gdf["category"] = gdf.apply(classify, axis=1)\<close>\<close>

definition assign_category :: "'g gdf \<Rightarrow> 'g gdf" where
  "assign_category df = set_column ''category'' (\<lambda>r. Str (classify (row_get df r))) df"

section \<open>The route extractor\<close>

text \<open>
  \<^verbatim>\<open>extract_kml_segments\<close> walks the Placemark elements of the document in order. Of a
  placemark the model keeps what the code reads: the \<^verbatim>\<open>name\<close> child and the first
  \<^verbatim>\<open>coordinates\<close> descendant, each absent (\<open>None\<close>) or present with its text, which
  is itself absent on an element without content. Python's \<^verbatim>\<open>float\<close> is a parameter
  that answers \<open>None\<close> where the call raises.
\<close>

record placemark =
  name_elem :: "string option option"
  coordinates_elem :: "string option option"

record 'f entry =
  pos :: nat
  Name :: "string option"
  Coordinates :: "'f list list"

text \<open>
  White space, for a text of characters up to code point 255: tab, line feed, the other
  control separators, the blank, next line and the no-break space.
\<close>

definition isspace :: "char \<Rightarrow> bool" where
  "isspace ch \<longleftrightarrow>
     ch \<in> set [CHR 0x09, CHR 0x0A, CHR 0x0B, CHR 0x0C, CHR 0x0D,
                CHR 0x1C, CHR 0x1D, CHR 0x1E, CHR 0x1F, CHR 0x20, CHR 0x85, CHR 0xA0]"

definition strip :: "string \<Rightarrow> string" where
  "strip s = rev (dropWhile isspace (rev (dropWhile isspace s)))"

text \<open>\<^verbatim>\<open>s.split()\<close>: the maximal runs of characters that are not white space.\<close>

fun split_acc :: "string \<Rightarrow> string \<Rightarrow> string list" where
  "split_acc cur [] = (if cur = [] then [] else [cur])"
| "split_acc cur (ch # s) =
     (if isspace ch then (if cur = [] then split_acc [] s else cur # split_acc [] s)
      else split_acc (cur @ [ch]) s)"

definition split_whitespace :: "string \<Rightarrow> string list" where
  "split_whitespace s = split_acc [] s"

text \<open>\<^verbatim>\<open>s.split(",")\<close>: the pieces between the separators, empty pieces kept.\<close>

fun split_on :: "char \<Rightarrow> string \<Rightarrow> string list" where
  "split_on sep [] = [[]]"
| "split_on sep (ch # s) =
     (if ch = sep then [] # split_on sep s
      else (case split_on sep s of
              w # ws \<Rightarrow> (ch # w) # ws
            | [] \<Rightarrow> [[ch]]))"

fun map_float :: "(string \<Rightarrow> 'f option) \<Rightarrow> string list \<Rightarrow> error + 'f list" where
  "map_float py_float [] = Inr []"
| "map_float py_float (t # ts) =
     (case py_float t of
        None \<Rightarrow> Inl ValueError
      | Some x \<Rightarrow>
          (case map_float py_float ts of Inl e \<Rightarrow> Inl e | Inr xs \<Rightarrow> Inr (x # xs)))"

fun parse_coords :: "(string \<Rightarrow> 'f option) \<Rightarrow> string list \<Rightarrow> error + 'f list list" where
  "parse_coords py_float [] = Inr []"
| "parse_coords py_float (coord # rest) =
     (case map_float py_float (split_on CHR '','' (strip coord)) of
        Inl e \<Rightarrow> Inl e
      | Inr tuple \<Rightarrow>
          (case parse_coords py_float rest of
             Inl e \<Rightarrow> Inl e
           | Inr tuples \<Rightarrow> Inr (tuple # tuples)))"

fun read_placemarks ::
  "(string \<Rightarrow> 'f option) \<Rightarrow> placemark list \<Rightarrow> (string option \<times> 'f list list) list
     \<Rightarrow> error + (string option \<times> 'f list list) list" where
  "read_placemarks py_float [] segments = Inr segments"
| "read_placemarks py_float (placemark # rest) segments =
     (let name = (case name_elem placemark of Some text \<Rightarrow> text | None \<Rightarrow> Some ''Unnamed'')
      in (case coordinates_elem placemark of
            None \<Rightarrow> Inl AttributeError
          | Some None \<Rightarrow> Inl AttributeError
          | Some (Some text) \<Rightarrow>
              (case parse_coords py_float (split_whitespace (strip text)) of
                 Inl e \<Rightarrow> Inl e
               | Inr coords_list \<Rightarrow>
                   read_placemarks py_float rest (segments @ [(name, coords_list)]))))"

text \<open>
  \<^verbatim>\<open>pd.DataFrame(segments)\<close> numbers the rows 0, 1, ...; built from an empty list it has
  no columns, and selecting \<^verbatim>\<open>Coordinates\<close> from it raises a key error.
\<close>

definition DataFrame :: "(string option \<times> 'f list list) list \<Rightarrow> 'f entry list" where
  "DataFrame segments =
     map (\<lambda>(i, name, coords). \<lparr>pos = i, Name = name, Coordinates = coords\<rparr>)
       (enumerate 0 segments)"

text \<open>\<^verbatim>\<open>df.iloc[a:b]\<close>: Python's slice, a negative bound counting from the end.\<close>

definition iloc :: "int \<Rightarrow> int \<Rightarrow> 'a list \<Rightarrow> 'a list" where
  "iloc a b xs =
     (let n = int (length xs);
          lo = (if a < 0 then max (n + a) 0 else min a n);
          hi = (if b < 0 then max (n + b) 0 else min b n)
      in take (nat (hi - lo)) (drop (nat lo) xs))"

record 'f extraction =
  segments_df :: "'f entry list"
  points_df :: "'f entry list"
  written :: "(string \<times> 'f entry list) list"

definition extract_kml_segments ::
  "(string \<Rightarrow> 'f option) \<Rightarrow> placemark list \<Rightarrow> string \<Rightarrow> int \<times> int \<Rightarrow> bool
     \<Rightarrow> error + 'f extraction" where
  "extract_kml_segments py_float placemarks output_dir segment_slice save_csv =
     (case read_placemarks py_float placemarks [] of
        Inl e \<Rightarrow> Inl e
      | Inr segments \<Rightarrow>
          if segments = [] then Inl (KeyError ''Coordinates'')
          else
            let df = DataFrame segments;
                points = filter (\<lambda>e. length (Coordinates e) = 1) df;
                segs = filter (\<lambda>e. length (Coordinates e) > 1) df;
                segs = iloc (fst segment_slice) (snd segment_slice) segs
            in Inr \<lparr>segments_df = segs, points_df = points,
                    written = (if save_csv
                               then [(output_dir @ ''/points.csv'', points),
                                     (output_dir @ ''/segments.csv'', segs)]
                               else [])\<rparr>)"

text \<open>The default of \<^verbatim>\<open>segment_slice\<close>.\<close>

definition default_segment_slice :: "int \<times> int" where
  "default_segment_slice = (3, 11)"

section \<open>Notions used in the statements\<close>

text \<open>
  The area the filter compares with the threshold: that of the row's geometry taken from
  the frame's reference system to the working one, before any smoothing.
\<close>

definition metric_area :: "'g geo_ops \<Rightarrow> string \<Rightarrow> string \<Rightarrow> 'g row \<Rightarrow> real" where
  "metric_area ops src working_crs r = area ops (reproject ops src working_crs (geometry r))"

text \<open>
  The length of the coordinate list the extractor builds for a placemark: the number of
  white-space separated tokens of its coordinates text.
\<close>

definition coordinate_count :: "placemark \<Rightarrow> nat" where
  "coordinate_count p =
     (case coordinates_elem p of
        Some (Some body) \<Rightarrow> length (split_whitespace (strip body))
      | _ \<Rightarrow> 0)"

section \<open>Example inputs\<close>

text \<open>
  A small instance of the geometric operations for the examples. A patch is known by the
  reference system of its coordinates, the area of its core and the area of its fringe,
  its fine detail. Reprojection relabels the patch, buffering by \<open>d\<close> changes the core
  by \<open>d\<close>, simplification trims the fringe by at most the tolerance, a union adds up
  its parts, and no patch is a MultiPolygon.
\<close>

datatype patch = Patch (frame: string) (core: real) (fringe: real)

definition patch_ops :: "patch geo_ops" where
  "patch_ops =
     \<lparr>reproject = (\<lambda>src tgt p. Patch tgt (core p) (fringe p)),
      area = (\<lambda>p. core p + fringe p),
      buffer = (\<lambda>d p. Patch (frame p) (core p + d) (fringe p)),
      simplify = (\<lambda>tol p. Patch (frame p) (core p) (max 0 (fringe p - tol))),
      unary_union = (\<lambda>ps. Patch (case ps of [] \<Rightarrow> [] | p # _ \<Rightarrow> frame p)
                        (sum_list (map core ps)) (sum_list (map fringe ps))),
      geoms = (\<lambda>p. None)\<rparr>"

text \<open>Two lakes, of 50 and 200 square metres, and what the filter makes of them.\<close>

definition lakes_gdf :: "patch gdf" where
  "lakes_gdf =
     \<lparr>crs = Some ''EPSG:4326'', geometry_name = ''geometry'', columns = [''name''],
      rows = [\<lparr>idx = 0, geometry = Patch ''EPSG:4326'' 50 0,
               cells = (\<lambda>c. NaN)(''name'' := Str ''pond'')\<rparr>,
              \<lparr>idx = 1, geometry = Patch ''EPSG:4326'' 200 0,
               cells = (\<lambda>c. NaN)(''name'' := Str ''loch'')\<rparr>]\<rparr>"

definition lakes_out :: "patch gdf" where
  "lakes_out =
     \<lparr>crs = Some ''EPSG:4326'', geometry_name = ''geometry'', columns = [''name'', ''area_m2''],
      rows = [\<lparr>idx = 1, geometry = Patch ''EPSG:4326'' 200 0,
               cells = (\<lambda>c. NaN)(''name'' := Str ''loch'', ''area_m2'' := Num 200)\<rparr>]\<rparr>"




text \<open>
  The 200 square metre lake in a frame whose geometry column is named \<^verbatim>\<open>geom\<close>, and
  what the filter makes of it.
\<close>

definition renamed_gdf :: "patch gdf" where
  "renamed_gdf =
     \<lparr>crs = Some ''EPSG:4326'', geometry_name = ''geom'', columns = [''name''],
      rows = [\<lparr>idx = 0, geometry = Patch ''EPSG:4326'' 200 4,
               cells = (\<lambda>c. NaN)(''name'' := Str ''loch'')\<rparr>]\<rparr>"

definition renamed_out :: "patch gdf" where
  "renamed_out =
     \<lparr>crs = Some ''EPSG:4326'', geometry_name = ''geom'',
      columns = [''name'', ''area_m2'', ''geometry''],
      rows = [\<lparr>idx = 0, geometry = Patch ''EPSG:4326'' 200 4,
               cells = (\<lambda>c. NaN)(''name'' := Str ''loch'', ''area_m2'' := Num 204,
                          ''geometry'' := Geom (Patch ''EPSG:3857'' 200 1))\<rparr>]\<rparr>"

text \<open>A frame that already has a column \<^verbatim>\<open>area_m2\<close>, with a value of its own.\<close>

definition measured_gdf :: "patch gdf" where
  "measured_gdf =
     \<lparr>crs = Some ''EPSG:4326'', geometry_name = ''geometry'', columns = [''area_m2''],
      rows = [\<lparr>idx = 0, geometry = Patch ''EPSG:4326'' 200 0,
               cells = (\<lambda>c. NaN)(''area_m2'' := Num 7)\<rparr>]\<rparr>"

definition measured_out :: "patch gdf" where
  "measured_out =
     \<lparr>crs = Some ''EPSG:4326'', geometry_name = ''geometry'', columns = [''area_m2''],
      rows = [\<lparr>idx = 0, geometry = Patch ''EPSG:4326'' 200 0,
               cells = (\<lambda>c. NaN)(''area_m2'' := Num 200)\<rparr>]\<rparr>"

text \<open>Land cover: two forest patches, a small grass patch and an unclassified one.\<close>

definition nature_gdf :: "patch gdf" where
  "nature_gdf =
     \<lparr>crs = Some ''EPSG:4326'', geometry_name = ''geometry'', columns = [''category''],
      rows = [\<lparr>idx = 0, geometry = Patch ''EPSG:4326'' 300 0,
               cells = (\<lambda>c. NaN)(''category'' := Str ''other'')\<rparr>,
              \<lparr>idx = 1, geometry = Patch ''EPSG:4326'' 200 0,
               cells = (\<lambda>c. NaN)(''category'' := Str ''forest'')\<rparr>,
              \<lparr>idx = 2, geometry = Patch ''EPSG:4326'' 50 0,
               cells = (\<lambda>c. NaN)(''category'' := Str ''grass'')\<rparr>,
              \<lparr>idx = 3, geometry = Patch ''EPSG:4326'' 400 1,
               cells = (\<lambda>c. NaN)(''category'' := Str ''forest'')\<rparr>]\<rparr>"

definition nature_out :: "patch gdf" where
  "nature_out =
     \<lparr>crs = Some ''EPSG:4326'', geometry_name = ''geometry'', columns = [''category''],
      rows = [\<lparr>idx = 0, geometry = Patch ''EPSG:4326'' 625 0,
               cells = (\<lambda>c. NaN)(''category'' := Str ''forest'')\<rparr>]\<rparr>"

definition other_only_gdf :: "patch gdf" where
  "other_only_gdf =
     \<lparr>crs = Some ''EPSG:4326'', geometry_name = ''geometry'', columns = [''category''],
      rows = [\<lparr>idx = 0, geometry = Patch ''EPSG:4326'' 300 0,
               cells = (\<lambda>c. NaN)(''category'' := Str ''other'')\<rparr>]\<rparr>"

text \<open>A row tagged as a meadow, with no \<^verbatim>\<open>natural\<close> tag.\<close>

definition meadow_row :: "string \<Rightarrow> unit val option" where
  "meadow_row = (\<lambda>k. None)(''landuse'' := Some (Str ''meadow''), ''natural'' := Some NaN)"

text \<open>
  A stand-in for \<^verbatim>\<open>float\<close> that accepts the non-empty tokens made of digits, dot and
  minus sign and keeps their text.
\<close>

definition plain_float :: "string \<Rightarrow> string option" where
  "plain_float s =
     (if s \<noteq> [] \<and> list_all (\<lambda>ch. ch \<in> set ''0123456789.-'') s then Some s else None)"

definition leg_pm :: placemark where
  "leg_pm =
     \<lparr>name_elem = Some (Some ''Leg''),
      coordinates_elem = Some (Some '' -4.1,56.0,12  -4.2,56.1,15 '')\<rparr>"

definition inn_pm :: placemark where
  "inn_pm = \<lparr>name_elem = None, coordinates_elem = Some (Some ''-4.3,56.2,20'')\<rparr>"

definition leg_coords :: "string list list" where
  "leg_coords = [[''-4.1'', ''56.0'', ''12''], [''-4.2'', ''56.1'', ''15'']]"

definition walk_tables :: "string extraction" where
  "walk_tables =
     \<lparr>segments_df = [\<lparr>pos = 4, Name = Some ''Leg'', Coordinates = leg_coords\<rparr>],
      points_df = [\<lparr>pos = 2, Name = Some ''Unnamed'', Coordinates = [[''-4.3'', ''56.2'', ''20'']]\<rparr>],
      written = []\<rparr>"

section \<open>Properties of the generic filter\<close>

lemma list_all2_partner:
  "list_all2 R xs ys \<Longrightarrow> y \<in> set ys \<Longrightarrow> \<exists>x\<in>set xs. R x y"
  by (induction rule: list_all2_induct) auto

text \<open>
  One pass on a frame with a reference system: the result frame, its columns, and how
  its rows come from the input rows above the threshold.
\<close>

lemma filter_and_smooth_pass:
  assumes "crs gdf = Some c"
  shows "\<exists>out. filter_and_smooth_geometries ops gdf t s k ic wc = Inr out
    \<and> crs out = Some ic
    \<and> geometry_name out = geometry_name gdf
    \<and> ''area_m2'' \<in> set (columns out)
    \<and> (geometry_name gdf \<noteq> ''geometry'' \<longrightarrow> ''geometry'' \<in> set (columns out))
    \<and> (''area_m2'' \<in> set (columns gdf)
          \<and> (geometry_name gdf \<noteq> ''geometry'' \<longrightarrow> ''geometry'' \<in> set (columns gdf))
        \<longrightarrow> columns out = columns gdf)
    \<and> (geometry_name gdf = ''geometry'' \<longrightarrow>
          columns out = (if ''area_m2'' \<in> set (columns gdf) then columns gdf
                         else columns gdf @ [''area_m2'']))
    \<and> list_all2 (\<lambda>r r'. idx r' = idx r
          \<and> cells r' ''area_m2'' = Num (metric_area ops c wc r)
          \<and> (\<forall>col. col \<noteq> ''area_m2'' \<and> col \<noteq> ''geometry'' \<longrightarrow> cells r' col = cells r col)
          \<and> (geometry_name gdf = ''geometry'' \<longrightarrow> cells r' ''geometry'' = cells r ''geometry''))
        (filter (\<lambda>r. t < metric_area ops c wc r) (rows gdf)) (rows out)"
proof (cases "geometry_name gdf = ''geometry''")
  case True
  with assms show ?thesis
    by (simp add: filter_and_smooth_geometries_def to_crs_def set_column_def select_rows_def
        set_geometry_def Let_def filter_map comp_def metric_area_def list_all2_map2
        list_all2_same)
next
  case False
  with assms show ?thesis
    by (simp add: filter_and_smooth_geometries_def to_crs_def set_column_def select_rows_def
        set_geometry_def Let_def filter_map comp_def metric_area_def list_all2_map2
        list_all2_same)
qed

lemma filter_and_smooth_crs:
  "filter_and_smooth_geometries ops gdf t s k ic wc = Inr out \<Longrightarrow> \<exists>c. crs gdf = Some c"
  by (cases "crs gdf") (simp_all add: filter_and_smooth_geometries_def to_crs_def)

lemmas run_defs = filter_and_smooth_geometries_def to_crs_def set_column_def select_rows_def
  set_geometry_def patch_ops_def

lemma lakes_run:
  "filter_and_smooth_geometries patch_ops lakes_gdf 100 10 3 ''EPSG:4326'' ''EPSG:3857''
     = Inr lakes_out"
  by (simp add: run_defs lakes_gdf_def lakes_out_def)

text \<open>
  Claim C1. On a frame with a reference system the generic filter returns, and the rows
  of its output are, in order, the input rows whose area in the working frame, measured
  before any smoothing, is not less than or equal to the threshold: the others are
  discarded, and every retained row records in \<^verbatim>\<open>area_m2\<close> an area strictly above the
  threshold.
\<close>

theorem filter_discards_exactly_small:
  assumes "crs gdf = Some c"
  shows "\<exists>out. filter_and_smooth_geometries ops gdf t s k ic wc = Inr out
    \<and> list_all2 (\<lambda>r r'. idx r' = idx r \<and> cells r' ''area_m2'' = Num (metric_area ops c wc r))
        (filter (\<lambda>r. \<not> metric_area ops c wc r \<le> t) (rows gdf)) (rows out)
    \<and> (\<forall>r'\<in>set (rows out). \<exists>a. cells r' ''area_m2'' = Num a \<and> t < a)"
proof -
  from filter_and_smooth_pass [OF assms, of ops t s k ic wc]
  obtain out where run: "filter_and_smooth_geometries ops gdf t s k ic wc = Inr out"
    and rel: "list_all2 (\<lambda>r r'. idx r' = idx r
          \<and> cells r' ''area_m2'' = Num (metric_area ops c wc r)
          \<and> (\<forall>col. col \<noteq> ''area_m2'' \<and> col \<noteq> ''geometry'' \<longrightarrow> cells r' col = cells r col)
          \<and> (geometry_name gdf = ''geometry'' \<longrightarrow> cells r' ''geometry'' = cells r ''geometry''))
        (filter (\<lambda>r. t < metric_area ops c wc r) (rows gdf)) (rows out)"
    by blast
  have same: "(\<lambda>r. \<not> metric_area ops c wc r \<le> t) = (\<lambda>r. t < metric_area ops c wc r)"
    by (simp add: not_le)
  have "list_all2 (\<lambda>r r'. idx r' = idx r \<and> cells r' ''area_m2'' = Num (metric_area ops c wc r))
        (filter (\<lambda>r. \<not> metric_area ops c wc r \<le> t) (rows gdf)) (rows out)"
    unfolding same by (rule list_all2_mono [OF rel]) simp
  moreover have "\<forall>r'\<in>set (rows out). \<exists>a. cells r' ''area_m2'' = Num a \<and> t < a"
  proof
    fix r' assume "r' \<in> set (rows out)"
    from list_all2_partner [OF rel this]
    show "\<exists>a. cells r' ''area_m2'' = Num a \<and> t < a" by auto
  qed
  ultimately show ?thesis using run by blast
qed

theorem filter_discards_exactly_small_witness:
  "crs lakes_gdf = Some ''EPSG:4326''
   \<and> filter_and_smooth_geometries patch_ops lakes_gdf 100 10 3 ''EPSG:4326'' ''EPSG:3857''
       = Inr lakes_out
   \<and> map (metric_area patch_ops ''EPSG:4326'' ''EPSG:3857'') (rows lakes_gdf) = [50, 200]
   \<and> list_all2 (\<lambda>r r'. idx r' = idx r
         \<and> cells r' ''area_m2'' = Num (metric_area patch_ops ''EPSG:4326'' ''EPSG:3857'' r))
        (filter (\<lambda>r. \<not> metric_area patch_ops ''EPSG:4326'' ''EPSG:3857'' r \<le> 100)
           (rows lakes_gdf)) (rows lakes_out)
   \<and> map (\<lambda>r'. cells r' ''area_m2'') (rows lakes_out) = [Num 200]"
proof -
  have h: "crs lakes_gdf = Some ''EPSG:4326''" by (simp add: lakes_gdf_def)
  have m: "map (metric_area patch_ops ''EPSG:4326'' ''EPSG:3857'') (rows lakes_gdf) = [50, 200]"
    by (simp add: lakes_gdf_def metric_area_def patch_ops_def)
  from filter_discards_exactly_small [OF h, of patch_ops 100 10 3 "''EPSG:4326''" "''EPSG:3857''"]
  show ?thesis using h m lakes_run by (simp add: lakes_out_def)
qed

section \<open>Properties of the category-aware operation\<close>

lemma stylize_group_cat:
  "(c, g) \<in> set (stylize_group ops p s k cat grp) \<Longrightarrow> c = cat \<and> cat \<noteq> Str ''other''"
  by (auto simp: stylize_group_def Let_def split: if_splits option.splits)

lemma stylize_loop_cat:
  "(c, g) \<in> set (stylize_loop ops p s k groups acc) \<Longrightarrow>
     (c, g) \<in> set acc \<or> c \<noteq> Str ''other''"
proof (induction groups arbitrary: acc)
  case Nil
  then show ?case by simp
next
  case (Cons a groups)
  obtain cat grp where a: "a = (cat, grp)" by (cases a)
  from Cons.prems
  have "(c, g) \<in> set (stylize_loop ops p s k groups (acc @ stylize_group ops p s k cat grp))"
    by (simp add: a)
  from Cons.IH [OF this] show ?case
    by (auto dest: stylize_group_cat)
qed

lemma GeoDataFrame_cells:
  assumes "GeoDataFrame fg w = Inr df" and "r \<in> set (rows df)"
  shows "\<exists>g. (cells r ''category'', g) \<in> set fg"
proof -
  from assms(1) have rows: "rows df =
      map (\<lambda>(i, cat, geom). \<lparr>idx = i, geometry = geom, cells = (\<lambda>c. NaN)(''category'' := cat)\<rparr>)
        (enumerate 0 fg)"
    by (auto simp: GeoDataFrame_def split: if_splits)
  with assms(2) obtain i cat geom where m: "(i, cat, geom) \<in> set (enumerate 0 fg)"
    and r: "r = \<lparr>idx = i, geometry = geom, cells = (\<lambda>c. NaN)(''category'' := cat)\<rparr>"
    by auto
  from m have "(cat, geom) \<in> set fg"
    by (auto simp: in_set_enumerate_eq dest: nth_mem)
  with r show ?thesis by auto
qed

lemma to_crs_cells:
  "to_crs ops t df = Inr df' \<Longrightarrow> r' \<in> set (rows df') \<Longrightarrow>
     \<exists>r\<in>set (rows df). cells r' = cells r \<and> idx r' = idx r"
  by (fastforce simp: to_crs_def split: option.splits)

lemma nature_run:
  "stylize_natural_geometries patch_ops nature_gdf 100 10 5 2 ''EPSG:4326'' ''EPSG:3857''
     = Inr nature_out"
  by (simp add: stylize_natural_geometries_def to_crs_def set_column_def select_rows_def
      groupby_def stylize_group_def GeoDataFrame_def patch_ops_def nature_gdf_def
      nature_out_def enumerate_eq_zip)

text \<open>
  Claim C2. Whatever the input frame and the parameters, no row of a frame returned by
  the category-aware operation has the category \<^verbatim>\<open>other\<close>.
\<close>

theorem stylize_never_emits_other:
  assumes "stylize_natural_geometries ops gdf t p s k ic wc = Inr out"
  shows "\<forall>r\<in>set (rows out). cells r ''category'' \<noteq> Str ''other''"
proof
  fix r assume r: "r \<in> set (rows out)"
  from assms obtain groups df where
    g: "GeoDataFrame (stylize_loop ops p s k groups []) wc = Inr df"
    and t: "to_crs ops ic df = Inr out"
    by (auto simp: stylize_natural_geometries_def Let_def split: sum.splits)
  from to_crs_cells [OF t r] obtain r0 where r0: "r0 \<in> set (rows df)" "cells r = cells r0"
    by auto
  from GeoDataFrame_cells [OF g r0(1)] obtain geom where
    "(cells r0 ''category'', geom) \<in> set (stylize_loop ops p s k groups [])" by auto
  from stylize_loop_cat [OF this] show "cells r ''category'' \<noteq> Str ''other''"
    using r0(2) by simp
qed

theorem stylize_never_emits_other_witness:
  "stylize_natural_geometries patch_ops nature_gdf 100 10 5 2 ''EPSG:4326'' ''EPSG:3857''
     = Inr nature_out
   \<and> map (\<lambda>r. cells r ''category'') (rows nature_out) = [Str ''forest'']
   \<and> list_all (\<lambda>r. cells r ''category'' \<noteq> Str ''other'') (rows nature_out)"
  using stylize_never_emits_other [OF nature_run] nature_run
  by (simp add: nature_out_def list_all_iff)

lemma stylize_loop_other_only:
  "\<forall>(cat, grp)\<in>set groups. cat = Str ''other'' \<Longrightarrow> stylize_loop ops p s k groups acc = acc"
  by (induction groups arbitrary: acc) (auto simp: stylize_group_def)

text \<open>
  When no row above the threshold has a category other than \<^verbatim>\<open>other\<close>, the loop
  appends nothing and the construction of the result frame raises.
\<close>

lemma stylize_raises_when_nothing_emitted:
  assumes c: "crs gdf = Some c" and col: "''category'' \<in> set (columns gdf)"
    and oth: "\<forall>r\<in>set (rows gdf). t < metric_area ops c wc r \<longrightarrow>
                cells r ''category'' = Str ''other'' \<or> cells r ''category'' = NaN"
  shows "stylize_natural_geometries ops gdf t p s k ic wc = Inl ValueError"
proof -
  define gdf_f where "gdf_f = select_rows (\<lambda>r. num_gt (cells r ''area_m2'') t)
     (set_column ''area_m2'' (\<lambda>r. Num (area ops (geometry r)))
        (gdf\<lparr>crs := Some wc,
              rows := map (\<lambda>r. r\<lparr>geometry := reproject ops c wc (geometry r)\<rparr>) (rows gdf)\<rparr>))"
  have cols: "''category'' \<in> set (columns gdf_f)"
    using col by (simp add: gdf_f_def select_rows_def set_column_def)
  have cats: "\<forall>r\<in>set (rows gdf_f).
      cells r ''category'' = Str ''other'' \<or> cells r ''category'' = NaN"
    using oth by (auto simp: gdf_f_def select_rows_def set_column_def metric_area_def)
  obtain groups where g: "groupby ''category'' gdf_f = Inr groups"
    and keys: "\<forall>(cat, grp)\<in>set groups. cat = Str ''other''"
    using cols cats by (auto simp: groupby_def Let_def)
  have "stylize_loop ops p s k groups [] = []"
    using keys by (rule stylize_loop_other_only)
  then show ?thesis
    using c g by (simp add: stylize_natural_geometries_def to_crs_def Let_def
        gdf_f_def [symmetric] GeoDataFrame_def)
qed

text \<open>
  Claim C3 asks for a possibly empty frame in the input reference system when nothing is
  left to emit. On a frame whose only row is of category \<^verbatim>\<open>other\<close> the operation
  raises instead, for any geometric operations and any parameters.
\<close>

theorem stylize_other_only_raises:
  "stylize_natural_geometries ops other_only_gdf t p s k ic wc = Inl ValueError"
  by (simp add: stylize_natural_geometries_def to_crs_def set_column_def select_rows_def
      groupby_def stylize_group_def GeoDataFrame_def other_only_gdf_def)

section \<open>A second pass of the generic filter\<close>





section \<open>Properties of the route extractor\<close>

lemma parse_coords_length:
  "parse_coords f toks = Inr cs \<Longrightarrow> length cs = length toks"
  by (induction toks arbitrary: cs) (auto split: sum.splits)

lemma read_placemarks_counts:
  "read_placemarks f pms acc = Inr segs \<Longrightarrow>
     map (\<lambda>sg. length (snd sg)) segs = map (\<lambda>sg. length (snd sg)) acc @ map coordinate_count pms"
proof (induction pms arbitrary: acc)
  case Nil
  then show ?case by simp
next
  case (Cons p pms)
  from Cons.prems obtain body cl where
    t: "coordinates_elem p = Some (Some body)"
    and pc: "parse_coords f (split_whitespace (strip body)) = Inr cl"
    and rest: "read_placemarks f pms
        (acc @ [(case name_elem p of Some tx \<Rightarrow> tx | None \<Rightarrow> Some ''Unnamed'', cl)]) = Inr segs"
    by (auto simp: Let_def split: option.splits sum.splits)
  from parse_coords_length [OF pc] t have "length cl = coordinate_count p"
    by (simp add: coordinate_count_def)
  with Cons.IH [OF rest] show ?case by simp
qed

lemma DataFrame_nth:
  "DataFrame segs =
     map (\<lambda>i. \<lparr>pos = i, Name = fst (segs ! i), Coordinates = snd (segs ! i)\<rparr>) [0..<length segs]"
proof -
  have "enumerate 0 segs = map (\<lambda>i. (i, segs ! i)) [0..<length segs]"
    by (rule nth_equalityI) (simp_all add: nth_enumerate_eq)
  then show ?thesis
    by (simp add: DataFrame_def comp_def split_beta)
qed

lemma DataFrame_select:
  assumes "map (\<lambda>sg. length (snd sg)) segs = map coordinate_count pms"
  shows "map pos (filter (\<lambda>e. P (length (Coordinates e))) (DataFrame segs))
           = filter (\<lambda>i. P (coordinate_count (pms ! i))) [0..<length pms]"
proof -
  from assms have len: "length segs = length pms"
    by (metis length_map)
  have nth: "length (snd (segs ! i)) = coordinate_count (pms ! i)" if "i < length pms" for i
    using that assms len by (metis nth_map)
  have "map pos (filter (\<lambda>e. P (length (Coordinates e))) (DataFrame segs))
          = filter (\<lambda>i. P (length (snd (segs ! i)))) [0..<length segs]"
    by (simp add: DataFrame_nth filter_map comp_def)
  also have "\<dots> = filter (\<lambda>i. P (coordinate_count (pms ! i))) [0..<length pms]"
    unfolding len by (rule filter_cong) (simp_all add: nth)
  finally show ?thesis .
qed

lemma iloc_map: "map f (iloc a b xs) = iloc a b (map f xs)"
  by (simp add: iloc_def Let_def take_map drop_map)

lemma set_iloc: "set (iloc a b xs) \<subseteq> set xs"
  by (auto simp: iloc_def Let_def dest: in_set_takeD in_set_dropD)

lemmas extract_defs = extract_kml_segments_def split_whitespace_def strip_def isspace_def
  plain_float_def DataFrame_def iloc_def default_segment_slice_def enumerate_eq_zip

lemma walk_run:
  "extract_kml_segments plain_float [leg_pm, leg_pm, inn_pm, leg_pm, leg_pm] ''res''
     default_segment_slice False = Inr walk_tables"
  by (simp add: extract_defs leg_pm_def inn_pm_def walk_tables_def leg_coords_def)

text \<open>
  Claim C6, as stated, fails for the segments: a document whose only placemark has two
  coordinates yields an empty segments table under the default slice.
\<close>

theorem extractor_segments_counterexample:
  "extract_kml_segments plain_float [leg_pm] ''res'' default_segment_slice False
     = Inr \<lparr>segments_df = [], points_df = [], written = []\<rparr>
   \<and> coordinate_count leg_pm = 2"
  by (simp add: extract_defs leg_pm_def coordinate_count_def)

text \<open>
  Claim C6, amended. When the extractor returns, the points table holds exactly the
  placemarks with one coordinate, in document order; the segments table holds the
  placemarks with more than one coordinate whose rank among these lies in the slice
  \<^verbatim>\<open>segment_slice\<close>; and no placemark with a single coordinate is in the segments
  table.
\<close>

theorem extractor_split:
  assumes "extract_kml_segments py_float placemarks output_dir segment_slice save_csv = Inr res"
  shows "map pos (points_df res)
           = filter (\<lambda>i. coordinate_count (placemarks ! i) = 1) [0..<length placemarks]
    \<and> map pos (segments_df res)
           = iloc (fst segment_slice) (snd segment_slice)
               (filter (\<lambda>i. coordinate_count (placemarks ! i) > 1) [0..<length placemarks])
    \<and> (\<forall>e\<in>set (points_df res). length (Coordinates e) = 1)
    \<and> (\<forall>e\<in>set (segments_df res). length (Coordinates e) > 1)"
proof -
  from assms obtain segs where
    rd: "read_placemarks py_float placemarks [] = Inr segs"
    and pts: "points_df res = filter (\<lambda>e. length (Coordinates e) = 1) (DataFrame segs)"
    and sgs: "segments_df res = iloc (fst segment_slice) (snd segment_slice)
                (filter (\<lambda>e. length (Coordinates e) > 1) (DataFrame segs))"
    by (auto simp: extract_kml_segments_def Let_def split: sum.splits if_splits)
  from read_placemarks_counts [OF rd]
  have cnt: "map (\<lambda>sg. length (snd sg)) segs = map coordinate_count placemarks" by simp
  have "map pos (points_df res)
           = filter (\<lambda>i. coordinate_count (placemarks ! i) = 1) [0..<length placemarks]"
    unfolding pts using DataFrame_select [OF cnt, of "\<lambda>n. n = 1"] by simp
  moreover have "map pos (segments_df res)
           = iloc (fst segment_slice) (snd segment_slice)
               (filter (\<lambda>i. coordinate_count (placemarks ! i) > 1) [0..<length placemarks])"
    unfolding sgs iloc_map using DataFrame_select [OF cnt, of "\<lambda>n. n > 1"] by simp
  moreover have "\<forall>e\<in>set (points_df res). length (Coordinates e) = 1"
    unfolding pts by simp
  moreover have "\<forall>e\<in>set (segments_df res). length (Coordinates e) > 1"
    unfolding sgs using set_iloc [of "fst segment_slice" "snd segment_slice"] by fastforce
  ultimately show ?thesis by blast
qed

theorem extractor_split_witness:
  "extract_kml_segments plain_float [leg_pm, leg_pm, inn_pm, leg_pm, leg_pm] ''res''
     default_segment_slice False = Inr walk_tables
   \<and> map coordinate_count [leg_pm, leg_pm, inn_pm, leg_pm, leg_pm] = [2, 2, 1, 2, 2]
   \<and> map pos (points_df walk_tables) = [2]
   \<and> map pos (segments_df walk_tables) = [4]
   \<and> map (\<lambda>e. length (Coordinates e)) (segments_df walk_tables) = [2]"
proof -
  have cc: "map coordinate_count [leg_pm, leg_pm, inn_pm, leg_pm, leg_pm] = [2, 2, 1, 2, 2]"
    by (simp add: coordinate_count_def leg_pm_def inn_pm_def split_whitespace_def strip_def
        isspace_def)
  from extractor_split [OF walk_run] walk_run cc
  show ?thesis by (simp add: walk_tables_def leg_coords_def)
qed

section \<open>Row count and columns of the generic filter\<close>

text \<open>
  Claim C8. An output of the generic filter has at most as many rows as its input.
\<close>

theorem filter_never_adds_rows:
  assumes "filter_and_smooth_geometries ops gdf t s k ic wc = Inr out"
  shows "length (rows out) \<le> length (rows gdf)"
proof -
  from filter_and_smooth_crs [OF assms] obtain c where c: "crs gdf = Some c" ..
  from filter_and_smooth_pass [OF c, of ops t s k ic wc] assms
  have "length (rows out) = length (filter (\<lambda>r. t < metric_area ops c wc r) (rows gdf))"
    by (auto dest: list_all2_lengthD)
  then show ?thesis by simp
qed

theorem filter_never_adds_rows_witness:
  "filter_and_smooth_geometries patch_ops lakes_gdf 100 10 3 ''EPSG:4326'' ''EPSG:3857''
     = Inr lakes_out
   \<and> length (rows lakes_out) = 1 \<and> length (rows lakes_gdf) = 2
   \<and> length (rows lakes_out) \<le> length (rows lakes_gdf)"
  using filter_never_adds_rows [OF lakes_run] lakes_run
  by (simp add: lakes_gdf_def lakes_out_def)

text \<open>
  Claim C9. The classifier answers \<^verbatim>\<open>grass\<close> only for a row whose \<^verbatim>\<open>natural\<close> tag
  is \<^verbatim>\<open>heath\<close>; a row with a \<^verbatim>\<open>landuse\<close> or \<^verbatim>\<open>landcover\<close> value of the grass tag
  set, no forest tag and a \<^verbatim>\<open>natural\<close> tag other than \<^verbatim>\<open>heath\<close> is classified
  \<^verbatim>\<open>other\<close>; and the \<^verbatim>\<open>landcover\<close> tag never changes the answer.
\<close>

theorem classify_grass_only_heath:
  "(classify row = ''grass'' \<longrightarrow> row ''natural'' = Some (Str ''heath''))
   \<and> ((is_in (row ''landuse'') (tags_at grass_tags ''landuse'')
        \<or> is_in (row ''landcover'') (tags_at grass_tags ''landcover''))
       \<and> \<not> is_in (row ''natural'') (tags_at forest_tags ''natural'')
       \<and> \<not> is_in (row ''landuse'') (tags_at forest_tags ''landuse'')
       \<and> row ''natural'' \<noteq> Some (Str ''heath'')
       \<longrightarrow> classify row = ''other'')
   \<and> classify (row(''landcover'' := v)) = classify row"
  by (auto simp: classify_def is_in_def tags_at_def grass_tags_def forest_tags_def
      split: option.splits val.splits)

theorem classify_grass_only_heath_witness:
  "is_in (meadow_row ''landuse'') (tags_at grass_tags ''landuse'')
   \<and> \<not> is_in (meadow_row ''natural'') (tags_at forest_tags ''natural'')
   \<and> \<not> is_in (meadow_row ''landuse'') (tags_at forest_tags ''landuse'')
   \<and> meadow_row ''natural'' \<noteq> Some (Str ''heath'')
   \<and> classify meadow_row = ''other''"
  using classify_grass_only_heath [of meadow_row]
  by (simp add: meadow_row_def is_in_def tags_at_def grass_tags_def forest_tags_def)

text \<open>
  Claim C10, as stated, fails on a frame that already has a column \<^verbatim>\<open>area_m2\<close>: the
  output has the same columns as the input, no extra one, and the value the input held
  in that column is replaced.
\<close>

theorem filter_columns_counterexample:
  "filter_and_smooth_geometries patch_ops measured_gdf 100 10 3 ''EPSG:4326'' ''EPSG:3857''
     = Inr measured_out
   \<and> columns measured_gdf = [''area_m2'']
   \<and> columns measured_out = [''area_m2'']
   \<and> map (\<lambda>r. cells r ''area_m2'') (rows measured_gdf) = [Num 7]
   \<and> map (\<lambda>r. cells r ''area_m2'') (rows measured_out) = [Num 200]"
  by (simp add: run_defs measured_gdf_def measured_out_def)

text \<open>
  On a frame whose geometry column is not named \<^verbatim>\<open>geometry\<close> the two assignments to
  that name add an ordinary column, which ends up holding the simplified, unsmoothed
  geometry in the working frame, and the geometry itself comes back as it went in.
\<close>

lemma filter_renamed_geometry_example:
  "filter_and_smooth_geometries patch_ops renamed_gdf 100 10 3 ''EPSG:4326'' ''EPSG:3857''
     = Inr renamed_out
   \<and> columns renamed_gdf = [''name'']
   \<and> columns renamed_out = [''name'', ''area_m2'', ''geometry'']
   \<and> map geometry (rows renamed_out) = map geometry (rows renamed_gdf)"
  by (simp add: run_defs renamed_gdf_def renamed_out_def)

text \<open>
  Claim C10, amended. On a frame whose geometry column is named \<^verbatim>\<open>geometry\<close>, the
  columns of an output of the generic filter are those of the input, with \<^verbatim>\<open>area_m2\<close>
  appended when the input did not have it and overwritten in place when it did. In each
  retained row \<^verbatim>\<open>area_m2\<close> holds the area of the geometry in the working frame before
  smoothing, and every other column keeps its value.
\<close>

theorem filter_columns:
  assumes run: "filter_and_smooth_geometries ops gdf t s k ic wc = Inr out"
    and named: "geometry_name gdf = ''geometry''"
  shows "geometry_name out = ''geometry''
    \<and> columns out =
           (if ''area_m2'' \<in> set (columns gdf) then columns gdf
            else columns gdf @ [''area_m2''])
    \<and> (\<exists>c. crs gdf = Some c
        \<and> list_all2 (\<lambda>r r'. idx r' = idx r
              \<and> cells r' ''area_m2'' = Num (metric_area ops c wc r)
              \<and> (\<forall>col. col \<noteq> ''area_m2'' \<longrightarrow> cells r' col = cells r col))
            (filter (\<lambda>r. t < metric_area ops c wc r) (rows gdf)) (rows out))"
proof -
  from filter_and_smooth_crs [OF run] obtain c where c: "crs gdf = Some c" ..
  from filter_and_smooth_pass [OF c, of ops t s k ic wc] run named
  have gn: "geometry_name out = ''geometry''"
    and cols: "columns out =
           (if ''area_m2'' \<in> set (columns gdf) then columns gdf
            else columns gdf @ [''area_m2''])"
    and rel: "list_all2 (\<lambda>r r'. idx r' = idx r
          \<and> cells r' ''area_m2'' = Num (metric_area ops c wc r)
          \<and> (\<forall>col. col \<noteq> ''area_m2'' \<and> col \<noteq> ''geometry'' \<longrightarrow> cells r' col = cells r col)
          \<and> (geometry_name gdf = ''geometry'' \<longrightarrow> cells r' ''geometry'' = cells r ''geometry''))
        (filter (\<lambda>r. t < metric_area ops c wc r) (rows gdf)) (rows out)"
    by auto
  have "list_all2 (\<lambda>r r'. idx r' = idx r
              \<and> cells r' ''area_m2'' = Num (metric_area ops c wc r)
              \<and> (\<forall>col. col \<noteq> ''area_m2'' \<longrightarrow> cells r' col = cells r col))
            (filter (\<lambda>r. t < metric_area ops c wc r) (rows gdf)) (rows out)"
    using rel by (rule list_all2_mono) (use named in metis)
  with gn cols c show ?thesis by blast
qed

theorem filter_columns_witness:
  "filter_and_smooth_geometries patch_ops lakes_gdf 100 10 3 ''EPSG:4326'' ''EPSG:3857''
     = Inr lakes_out
   \<and> geometry_name lakes_gdf = ''geometry''
   \<and> columns lakes_gdf = [''name'']
   \<and> columns lakes_out = [''name'', ''area_m2'']
   \<and> map (\<lambda>r. cells r ''name'') (rows lakes_out) = [Str ''loch'']"
proof -
  have named: "geometry_name lakes_gdf = ''geometry''" by (simp add: lakes_gdf_def)
  from filter_columns [OF lakes_run named] lakes_run named
  show ?thesis by (simp add: lakes_gdf_def lakes_out_def)
qed

end
